theory Spec2Isabelle
  imports Main "HOL-Library.Word"
begin

section \<open>The mock tablet-server controller (go/vt/vttablet/tabletservermock/controller.go)\<close>

text \<open>
  The controller is a Go struct guarded by one mutex. Its methods are modelled as functions
  from the state before the call to an outcome: the call returns a value in a new state, it
  panics, or it is suspended (on the mutex or on a send to a full channel) in the state it
  has reached. Pointers to Target messages are addresses into an explicit store, because the
  methods clone these messages and callers may write to the objects they hold.
\<close>

subsection \<open>Data\<close>

type_synonym addr = nat

text \<open>
  Modelled from the spec: the message type querypb.Target is declared in the generated
  package go/vt/proto/query, which is not under src/. The spec describes it as the
  (keyspace, shard, tablet-type) triple; the enumeration topodatapb.TabletType is missing
  too and is the type parameter \<open>'tt\<close>.
\<close>

record 'tt Target =
  Keyspace :: string
  Shard :: string
  TabletType :: 'tt

text \<open>
  BroadcastData (lines 42-51). The struct querypb.RealtimeStats is declared outside src/; it
  is the type parameter \<open>'s\<close>, whose \<open>0\<close> stands for the Go zero value of the struct.
\<close>

record 's BroadcastData =
  TERTimestamp :: "64 word"
  RealtimeStats :: 's
  Serving :: bool

text \<open>
  StateChange (lines 55-60). Its fields are Serving and TabletType in the source; they carry
  the suffix \<open>_SC\<close> here because the two records above already use these names.
\<close>

record 'tt StateChange =
  Serving_SC :: bool
  TabletType_SC :: 'tt

text \<open>
  A buffered Go channel: its capacity, fixed by \<open>make\<close>, and the elements waiting in it,
  oldest first. The channels of the controller carry pointers to event structs that are
  allocated by the send and never written again, so the elements are the struct values.
\<close>

record 'a chan =
  cap :: nat
  buf :: "'a list"

definition make_chan :: "nat \<Rightarrow> 'a chan" where
  "make_chan n = \<lparr>cap = n, buf = []\<rparr>"

text \<open>\<open>ch <- x\<close>: \<open>None\<close> when the buffer is full and the sender has to wait.\<close>

definition chan_send :: "'a \<Rightarrow> 'a chan \<Rightarrow> 'a chan option" where
  "chan_send x ch = (if length (buf ch) < cap ch then Some (ch\<lparr>buf := buf ch @ [x]\<rparr>) else None)"

text \<open>\<open><-ch\<close>: \<open>None\<close> when the buffer is empty and the receiver has to wait.\<close>

definition chan_recv :: "'a chan \<Rightarrow> ('a \<times> 'a chan) option" where
  "chan_recv ch = (case buf ch of [] \<Rightarrow> None | x # xs \<Rightarrow> Some (x, ch\<lparr>buf := xs\<rparr>))"

text \<open>
  Controller (lines 63-95), field by field. A pointer is \<open>None\<close> when nil. \<open>mu\<close> is
  \<open>True\<close> while the mutex is locked. \<open>queryRulesMap\<close> maps a rule source to a pointer to a
  rule set, which may itself be nil; NewController always allocates the map and no method
  assigns the field, so the map itself is never nil. An error value is \<open>None\<close> when nil.
\<close>

record ('tt, 'e, 's) Controller =
  stats :: addr
  BroadcastData :: "'s BroadcastData chan"
  StateChanges :: "'tt StateChange chan"
  target :: "addr option"
  SetServingTypeError :: "'e option"
  TS :: "addr option"
  mu :: bool
  queryServiceEnabled :: bool
  isInLameduck :: bool
  queryRulesMap :: "string \<rightharpoonup> addr option"

text \<open>
  The state a method runs in: the controller together with the store of Target messages.
  \<open>heap w a\<close> is the message at address \<open>a\<close>; the addresses below \<open>brk w\<close> are allocated.
\<close>

record ('tt, 'e, 's) world = "('tt, 'e, 's) Controller" +
  heap :: "addr \<Rightarrow> 'tt Target"
  brk :: addr

subsection \<open>Outcomes of a call\<close>

datatype ('a, 'w) outcome =
    Returned 'a 'w
  | Panicked 'w
  | Blocked 'w

text \<open>Sequencing of two statements: the second runs only when the first has completed.\<close>

definition andThen ::
  "('w \<Rightarrow> ('a, 'w) outcome) \<Rightarrow> ('a \<Rightarrow> 'w \<Rightarrow> ('b, 'w) outcome) \<Rightarrow> 'w \<Rightarrow> ('b, 'w) outcome" where
  "andThen m f w =
     (case m w of
        Returned a w' \<Rightarrow> f a w'
      | Panicked w' \<Rightarrow> Panicked w'
      | Blocked w' \<Rightarrow> Blocked w')"

text \<open>
  \<open>defer d\<close> in front of a body: \<open>d\<close> runs when the body returns and when it panics, and does
  not run while the body is suspended.
\<close>

definition deferred ::
  "('w \<Rightarrow> 'w) \<Rightarrow> ('w \<Rightarrow> ('a, 'w) outcome) \<Rightarrow> 'w \<Rightarrow> ('a, 'w) outcome" where
  "deferred d m w =
     (case m w of
        Returned a w' \<Rightarrow> Returned a (d w')
      | Panicked w' \<Rightarrow> Panicked (d w')
      | Blocked w' \<Rightarrow> Blocked w')"

text \<open>\<open>tqsc.mu.Lock()\<close> waits while the mutex is held; \<open>tqsc.mu.Unlock()\<close> releases it.\<close>

definition Lock :: "('tt, 'e, 's) world \<Rightarrow> (unit, ('tt, 'e, 's) world) outcome" where
  "Lock w = (if mu w then Blocked w else Returned () (w\<lparr>mu := True\<rparr>))"

definition Unlock :: "('tt, 'e, 's) world \<Rightarrow> ('tt, 'e, 's) world" where
  "Unlock w = w\<lparr>mu := False\<rparr>"

text \<open>
  \<open>proto.Clone(p).(*querypb.Target)\<close>: a nil pointer is cloned to a nil pointer; otherwise a
  new message is allocated and every field of the original is copied into it. All fields
  of a Target are scalars, so the copy shares nothing with the original.
\<close>

definition Clone :: "addr option \<Rightarrow> ('tt, 'e, 's) world \<Rightarrow> addr option \<times> ('tt, 'e, 's) world" where
  "Clone p w =
     (case p of
        None \<Rightarrow> (None, w)
      | Some a \<Rightarrow> (Some (brk w), w\<lparr>heap := (heap w)(brk w := heap w a), brk := Suc (brk w)\<rparr>))"

subsection \<open>The methods\<close>

text \<open>
  NewController (lines 98-106). The stats object is built by tabletenv.NewStats, outside
  src/; the reference to it is the parameter \<open>st\<close>. The fields the literal does not mention
  take their zero values.
\<close>

definition NewController :: "addr \<Rightarrow> ('tt, 'e, 's) Controller" where
  "NewController st =
     \<lparr>stats = st,
      BroadcastData = make_chan 10,
      StateChanges = make_chan 10,
      target = None,
      SetServingTypeError = None,
      TS = None,
      mu = False,
      queryServiceEnabled = False,
      isInLameduck = False,
      queryRulesMap = Map.empty\<rparr>"

text \<open>The state in which a controller \<open>c\<close> lives beside the store \<open>h\<close> with \<open>b\<close> cells allocated.\<close>

definition in_store :: "(addr \<Rightarrow> 'tt Target) \<Rightarrow> addr \<Rightarrow> ('tt, 'e, 's) Controller \<Rightarrow> ('tt, 'e, 's) world" where
  "in_store h b c = Controller.extend c (world.fields h b)"

text \<open>InitDBConfig (lines 126-132).\<close>

definition InitDBConfig ::
  "addr option \<Rightarrow> 'db \<Rightarrow> 'md \<Rightarrow> ('tt, 'e, 's) world \<Rightarrow> ('e option, ('tt, 'e, 's) world) outcome" where
  "InitDBConfig tgt dbcfgs mysqld =
     andThen Lock (\<lambda>_. deferred Unlock
       (\<lambda>w. case Clone tgt w of (p, w') \<Rightarrow> Returned None (w'\<lparr>target := p\<rparr>)))"

text \<open>
  SetServingType (lines 135-149). The assignment to \<open>tqsc.target.TabletType\<close> dereferences
  \<open>tqsc.target\<close> and panics when it is nil.
\<close>

definition SetServingType ::
  "'tt \<Rightarrow> 'time \<Rightarrow> bool \<Rightarrow> string \<Rightarrow> ('tt, 'e, 's) world \<Rightarrow> ('e option, ('tt, 'e, 's) world) outcome" where
  "SetServingType tabletType terTime serving reason =
     andThen Lock (\<lambda>_. deferred Unlock
       (andThen
          (\<lambda>w. if SetServingTypeError w = None
               then (case target w of
                       None \<Rightarrow> Panicked w
                     | Some p \<Rightarrow>
                         Returned ()
                           (w\<lparr>heap := (heap w)(p := (heap w p)\<lparr>TabletType := tabletType\<rparr>),
                              queryServiceEnabled := serving\<rparr>))
               else Returned () w)
          (\<lambda>_. andThen
             (\<lambda>w. case chan_send \<lparr>Serving_SC = serving, TabletType_SC = tabletType\<rparr> (StateChanges w) of
                     None \<Rightarrow> Blocked w
                   | Some ch \<Rightarrow> Returned () (w\<lparr>StateChanges := ch\<rparr>))
             (\<lambda>_ w. Returned (SetServingTypeError w) (w\<lparr>isInLameduck := False\<rparr>)))))"

text \<open>IsServing (lines 152-157).\<close>

definition IsServing :: "('tt, 'e, 's) world \<Rightarrow> (bool, ('tt, 'e, 's) world) outcome" where
  "IsServing =
     andThen Lock (\<lambda>_. deferred Unlock (\<lambda>w. Returned (queryServiceEnabled w) w))"

text \<open>CurrentTarget (lines 160-164).\<close>

definition CurrentTarget :: "('tt, 'e, 's) world \<Rightarrow> (addr option, ('tt, 'e, 's) world) outcome" where
  "CurrentTarget =
     andThen Lock (\<lambda>_. deferred Unlock
       (\<lambda>w. case Clone (target w) w of (p, w') \<Rightarrow> Returned p w'))"

text \<open>IsHealthy (lines 167-169) and ReloadSchema (lines 172-174).\<close>

definition IsHealthy :: "('tt, 'e, 's) world \<Rightarrow> ('e option, ('tt, 'e, 's) world) outcome" where
  "IsHealthy w = Returned None w"

definition ReloadSchema :: "'ctx \<Rightarrow> ('tt, 'e, 's) world \<Rightarrow> ('e option, ('tt, 'e, 's) world) outcome" where
  "ReloadSchema ctx w = Returned None w"

text \<open>RegisterQueryRuleSource (lines 181-182) and UnRegisterQueryRuleSource (lines 185-186).\<close>

definition RegisterQueryRuleSource :: "string \<Rightarrow> ('tt, 'e, 's) world \<Rightarrow> (unit, ('tt, 'e, 's) world) outcome" where
  "RegisterQueryRuleSource ruleSource w = Returned () w"

definition UnRegisterQueryRuleSource :: "string \<Rightarrow> ('tt, 'e, 's) world \<Rightarrow> (unit, ('tt, 'e, 's) world) outcome" where
  "UnRegisterQueryRuleSource ruleSource w = Returned () w"

text \<open>SetQueryRules (lines 189-194).\<close>

definition SetQueryRules ::
  "string \<Rightarrow> addr option \<Rightarrow> ('tt, 'e, 's) world \<Rightarrow> ('e option, ('tt, 'e, 's) world) outcome" where
  "SetQueryRules ruleSource qrs =
     andThen Lock (\<lambda>_. deferred Unlock
       (\<lambda>w. Returned None (w\<lparr>queryRulesMap := (queryRulesMap w)(ruleSource \<mapsto> qrs)\<rparr>)))"

text \<open>
  BroadcastHealth (lines 207-214). The struct literal sets Serving only; the other two fields
  take their zero values.
\<close>

definition BroadcastHealth :: "('tt, 'e, 's::zero) world \<Rightarrow> (unit, ('tt, 'e, 's) world) outcome" where
  "BroadcastHealth =
     andThen Lock (\<lambda>_. deferred Unlock
       (\<lambda>w. case chan_send
                 \<lparr>TERTimestamp = 0, RealtimeStats = 0,
                  Serving = (queryServiceEnabled w \<and> \<not> isInLameduck w)\<rparr>
                 (BroadcastData w) of
               None \<Rightarrow> Blocked w
             | Some ch \<Rightarrow> Returned () (w\<lparr>BroadcastData := ch\<rparr>)))"

text \<open>EnterLameduck (lines 222-227).\<close>

definition EnterLameduck :: "('tt, 'e, 's) world \<Rightarrow> (unit, ('tt, 'e, 's) world) outcome" where
  "EnterLameduck =
     andThen Lock (\<lambda>_. deferred Unlock (\<lambda>w. Returned () (w\<lparr>isInLameduck := True\<rparr>)))"

text \<open>SetQueryServiceEnabledForTests (lines 230-235).\<close>

definition SetQueryServiceEnabledForTests ::
  "bool \<Rightarrow> ('tt, 'e, 's) world \<Rightarrow> (unit, ('tt, 'e, 's) world) outcome" where
  "SetQueryServiceEnabledForTests enabled =
     andThen Lock (\<lambda>_. deferred Unlock (\<lambda>w. Returned () (w\<lparr>queryServiceEnabled := enabled\<rparr>)))"

text \<open>
  GetQueryRules (lines 238-242). Indexing a Go map with a key it does not hold yields the
  zero value of the element type, here the nil pointer.
\<close>

definition GetQueryRules :: "string \<Rightarrow> ('tt, 'e, 's) world \<Rightarrow> (addr option, ('tt, 'e, 's) world) outcome" where
  "GetQueryRules ruleSource =
     andThen Lock (\<lambda>_. deferred Unlock
       (\<lambda>w. Returned (case queryRulesMap w ruleSource of None \<Rightarrow> None | Some p \<Rightarrow> p) w))"

subsection \<open>The test harness\<close>

text \<open>
  The tests that use the controller read its two channels, assign its exported field
  SetServingTypeError, and may write to any Target message they hold a pointer to. These
  are statements of the caller, outside the mutex.
\<close>

definition has_room :: "'a chan \<Rightarrow> bool" where
  "has_room ch = (length (buf ch) < cap ch)"


text \<open>
  One statement of a test that drives SetServingType: a call, a receive from the
  state-change channel, or an assignment to SetServingTypeError.
\<close>

datatype ('tt, 'time, 'e) harness_step =
    Call_SetServingType 'tt 'time bool string
  | Recv_StateChanges
  | Assign_SetServingTypeError "'e option"

text \<open>
  A test runs its statements in order and collects the events it receives; it stops where
  a call panics, and it is stuck where a call or a receive is suspended.
\<close>

fun run ::
  "('tt, 'time, 'e) harness_step list \<Rightarrow> 'tt StateChange list \<Rightarrow> ('tt, 'e, 's) world
     \<Rightarrow> ('tt StateChange list, ('tt, 'e, 's) world) outcome" where
  "run [] seen w = Returned seen w"
| "run (Call_SetServingType tabletType terTime serving reason # rest) seen w =
     (case SetServingType tabletType terTime serving reason w of
        Returned _ w' \<Rightarrow> run rest seen w'
      | Panicked w' \<Rightarrow> Panicked w'
      | Blocked w' \<Rightarrow> Blocked w')"
| "run (Recv_StateChanges # rest) seen w =
     (case chan_recv (StateChanges w) of
        None \<Rightarrow> Blocked w
      | Some (e, ch) \<Rightarrow> run rest (seen @ [e]) (w\<lparr>StateChanges := ch\<rparr>))"
| "run (Assign_SetServingTypeError e # rest) seen w =
     run rest seen (w\<lparr>SetServingTypeError := e\<rparr>)"

text \<open>The events that the calls of a test ask for, in call order.\<close>

fun events_of :: "('tt, 'time, 'e) harness_step list \<Rightarrow> 'tt StateChange list" where
  "events_of [] = []"
| "events_of (Call_SetServingType tabletType terTime serving reason # rest) =
     \<lparr>Serving_SC = serving, TabletType_SC = tabletType\<rparr> # events_of rest"
| "events_of (Recv_StateChanges # rest) = events_of rest"
| "events_of (Assign_SetServingTypeError e # rest) = events_of rest"

text \<open>A test that never assigns a non-nil error to SetServingTypeError.\<close>

fun no_failure_injected :: "('tt, 'time, 'e) harness_step list \<Rightarrow> bool" where
  "no_failure_injected [] = True"
| "no_failure_injected (Assign_SetServingTypeError (Some e) # rest) = False"
| "no_failure_injected (_ # rest) = no_failure_injected rest"

text \<open>Whether a call is suspended while the mutex is locked.\<close>

fun suspended_with_lock :: "('a, ('tt, 'e, 's) world) outcome \<Rightarrow> bool" where
  "suspended_with_lock (Blocked w) = mu w"
| "suspended_with_lock _ = False"

text \<open>A test that calls BroadcastHealth \<open>n\<close> times in a row and never receives.\<close>

fun BroadcastHealth_times ::
  "nat \<Rightarrow> ('tt, 'e, 's::zero) world \<Rightarrow> (unit, ('tt, 'e, 's) world) outcome" where
  "BroadcastHealth_times 0 w = Returned () w"
| "BroadcastHealth_times (Suc n) w =
     (case BroadcastHealth w of
        Returned _ w' \<Rightarrow> BroadcastHealth_times n w'
      | Panicked w' \<Rightarrow> Panicked w'
      | Blocked w' \<Rightarrow> Blocked w')"

text \<open>The state an outcome carries.\<close>

fun state_of :: "('a, 'w) outcome \<Rightarrow> 'w" where
  "state_of (Returned a w) = w"
| "state_of (Panicked w) = w"
| "state_of (Blocked w) = w"

text \<open>
  For the concrete examples: a store in which the test has allocated one Target at
  address 0 (keyspace ks, shard 0, tablet type 2), and a freshly constructed controller
  beside it. Tablet types are numbers in the examples.
\<close>

definition test_store :: "addr \<Rightarrow> nat Target" where
  "test_store = (\<lambda>_. \<lparr>Keyspace = ''ks'', Shard = ''0'', TabletType = 2\<rparr>)"

definition fresh :: "(nat, string, nat) world" where
  "fresh = in_store test_store 1 (NewController 0)"

section \<open>Properties\<close>

subsection \<open>What each call does, by the state it starts in\<close>

lemmas step_defs =
  andThen_def deferred_def Lock_def Unlock_def Clone_def chan_send_def chan_recv_def has_room_def

lemma in_store_simps:
  "stats (in_store h b c) = stats c"
  "BroadcastData (in_store h b c) = BroadcastData c"
  "StateChanges (in_store h b c) = StateChanges c"
  "target (in_store h b c) = target c"
  "SetServingTypeError (in_store h b c) = SetServingTypeError c"
  "TS (in_store h b c) = TS c"
  "mu (in_store h b c) = mu c"
  "queryServiceEnabled (in_store h b c) = queryServiceEnabled c"
  "isInLameduck (in_store h b c) = isInLameduck c"
  "queryRulesMap (in_store h b c) = queryRulesMap c"
  "heap (in_store h b c) = h"
  "brk (in_store h b c) = b"
  by (cases c; simp add: in_store_def Controller.defs world.defs)+

lemma NewController_simps:
  "BroadcastData (NewController st) = \<lparr>cap = 10, buf = []\<rparr>"
  "StateChanges (NewController st) = \<lparr>cap = 10, buf = []\<rparr>"
  "target (NewController st) = None"
  "SetServingTypeError (NewController st) = None"
  "mu (NewController st) = False"
  "queryServiceEnabled (NewController st) = False"
  "isInLameduck (NewController st) = False"
  "queryRulesMap (NewController st) = Map.empty"
  by (simp_all add: NewController_def make_chan_def)

lemma fresh_simps:
  "BroadcastData fresh = \<lparr>cap = 10, buf = []\<rparr>"
  "StateChanges fresh = \<lparr>cap = 10, buf = []\<rparr>"
  "target fresh = None"
  "SetServingTypeError fresh = None"
  "mu fresh = False"
  "queryServiceEnabled fresh = False"
  "isInLameduck fresh = False"
  "queryRulesMap fresh = Map.empty"
  "heap fresh = test_store"
  "brk fresh = 1"
  by (simp_all add: fresh_def in_store_simps NewController_simps)

lemma SetServingType_ok:
  assumes "\<not> mu w" and "SetServingTypeError w = None" and "target w = Some p"
    and "has_room (StateChanges w)"
  shows "SetServingType tabletType terTime serving reason w =
     Returned None
       (w\<lparr>heap := (heap w)(p := (heap w p)\<lparr>TabletType := tabletType\<rparr>),
          queryServiceEnabled := serving,
          StateChanges := (StateChanges w)\<lparr>buf := buf (StateChanges w) @
             [\<lparr>Serving_SC = serving, TabletType_SC = tabletType\<rparr>]\<rparr>,
          isInLameduck := False\<rparr>)"
  using assms by (simp add: SetServingType_def step_defs)

lemma SetServingType_failing:
  assumes "\<not> mu w" and "SetServingTypeError w = Some e" and "has_room (StateChanges w)"
  shows "SetServingType tabletType terTime serving reason w =
     Returned (Some e)
       (w\<lparr>StateChanges := (StateChanges w)\<lparr>buf := buf (StateChanges w) @
             [\<lparr>Serving_SC = serving, TabletType_SC = tabletType\<rparr>]\<rparr>,
          isInLameduck := False\<rparr>)"
  using assms by (simp add: SetServingType_def step_defs)

lemma SetServingType_panics:
  assumes "\<not> mu w" and "SetServingTypeError w = None" and "target w = None"
  shows "SetServingType tabletType terTime serving reason w = Panicked w"
  using assms by (simp add: SetServingType_def step_defs)

lemma SetServingType_Panicked_D:
  assumes "SetServingType tabletType terTime serving reason w = Panicked w'"
  shows "SetServingTypeError w = None \<and> target w = None"
  using assms
  by (auto simp: SetServingType_def step_defs split: if_splits option.splits)

lemma SetServingType_full:
  assumes "\<not> mu w" and "SetServingTypeError w \<noteq> None \<or> target w \<noteq> None"
    and "\<not> has_room (StateChanges w)"
  shows "\<exists>w'. SetServingType tabletType terTime serving reason w = Blocked w' \<and> mu w'"
  using assms by (auto simp: SetServingType_def step_defs)

lemma SetServingType_Returned_D:
  assumes "SetServingType tabletType terTime serving reason w = Returned r w'"
  shows "\<not> mu w \<and> has_room (StateChanges w) \<and> r = SetServingTypeError w
       \<and> (SetServingTypeError w = None \<longrightarrow> target w \<noteq> None)
       \<and> \<not> mu w' \<and> \<not> isInLameduck w'
       \<and> SetServingTypeError w' = SetServingTypeError w \<and> target w' = target w
       \<and> brk w' = brk w
       \<and> cap (StateChanges w') = cap (StateChanges w)
       \<and> buf (StateChanges w') =
           buf (StateChanges w) @ [\<lparr>Serving_SC = serving, TabletType_SC = tabletType\<rparr>]"
  using assms
  by (auto simp: SetServingType_def step_defs split: if_splits option.splits)

lemma SetServingType_returns:
  assumes "\<not> mu w" and "SetServingTypeError w \<noteq> None \<or> target w \<noteq> None"
    and "has_room (StateChanges w)"
  shows "\<exists>w'. SetServingType tabletType terTime serving reason w =
           Returned (SetServingTypeError w) w'"
  using assms by (auto simp: SetServingType_def step_defs)

lemma IsServing_idle: "\<not> mu w \<Longrightarrow> IsServing w = Returned (queryServiceEnabled w) w"
  by (simp add: IsServing_def step_defs)

lemma CurrentTarget_idle:
  "\<not> mu w \<Longrightarrow> target w = Some p \<Longrightarrow>
   CurrentTarget w =
     Returned (Some (brk w)) (w\<lparr>heap := (heap w)(brk w := heap w p), brk := Suc (brk w)\<rparr>)"
  by (simp add: CurrentTarget_def step_defs)

lemma CurrentTarget_nil:
  "\<not> mu w \<Longrightarrow> target w = None \<Longrightarrow> CurrentTarget w = Returned None w"
  by (simp add: CurrentTarget_def step_defs)

lemma InitDBConfig_idle:
  "\<not> mu w \<Longrightarrow> InitDBConfig (Some a) dbcfgs mysqld w =
     Returned None
       (w\<lparr>heap := (heap w)(brk w := heap w a), brk := Suc (brk w), target := Some (brk w)\<rparr>)"
  by (simp add: InitDBConfig_def step_defs)

lemma InitDBConfig_nil:
  "\<not> mu w \<Longrightarrow> InitDBConfig None dbcfgs mysqld w = Returned None (w\<lparr>target := None\<rparr>)"
  by (simp add: InitDBConfig_def step_defs)

lemma SetQueryRules_idle:
  "\<not> mu w \<Longrightarrow> SetQueryRules ruleSource qrs w =
     Returned None (w\<lparr>queryRulesMap := (queryRulesMap w)(ruleSource \<mapsto> qrs)\<rparr>)"
  by (simp add: SetQueryRules_def step_defs)

lemma GetQueryRules_idle:
  "\<not> mu w \<Longrightarrow> GetQueryRules ruleSource w =
     Returned (case queryRulesMap w ruleSource of None \<Rightarrow> None | Some p \<Rightarrow> p) w"
  by (simp add: GetQueryRules_def step_defs)

lemma EnterLameduck_idle:
  "\<not> mu w \<Longrightarrow> EnterLameduck w = Returned () (w\<lparr>isInLameduck := True\<rparr>)"
  by (simp add: EnterLameduck_def step_defs)

lemma BroadcastHealth_idle:
  "\<not> mu w \<Longrightarrow> has_room (BroadcastData w) \<Longrightarrow>
   BroadcastHealth w =
     Returned ()
       (w\<lparr>BroadcastData := (BroadcastData w)\<lparr>buf := buf (BroadcastData w) @
            [\<lparr>TERTimestamp = 0, RealtimeStats = 0,
              Serving = (queryServiceEnabled w \<and> \<not> isInLameduck w)\<rparr>]\<rparr>\<rparr>)"
  by (simp add: BroadcastHealth_def step_defs)

lemma BroadcastHealth_full:
  "\<not> mu w \<Longrightarrow> \<not> has_room (BroadcastData w) \<Longrightarrow> BroadcastHealth w = Blocked (w\<lparr>mu := True\<rparr>)"
  by (simp add: BroadcastHealth_def step_defs)

lemma BroadcastHealth_Returned_D:
  "BroadcastHealth w = Returned r w' \<Longrightarrow> \<not> mu w \<and> \<not> mu w'"
  by (auto simp: BroadcastHealth_def step_defs split: if_splits option.splits)

lemma locked_waits:
  assumes "mu w"
  shows "SetServingType tabletType terTime serving reason w = Blocked w"
    and "IsServing w = Blocked w"
    and "CurrentTarget w = Blocked w"
    and "InitDBConfig tgt dbcfgs mysqld w = Blocked w"
    and "SetQueryRules ruleSource qrs w = Blocked w"
    and "GetQueryRules ruleSource w = Blocked w"
    and "EnterLameduck w = Blocked w"
    and "SetQueryServiceEnabledForTests enabled w = Blocked w"
  using assms
  by (simp_all add: SetServingType_def IsServing_def CurrentTarget_def
      InitDBConfig_def SetQueryRules_def GetQueryRules_def EnterLameduck_def
      SetQueryServiceEnabledForTests_def step_defs)

lemma BroadcastHealth_locked: "mu w \<Longrightarrow> BroadcastHealth w = Blocked w"
  by (simp add: BroadcastHealth_def step_defs)

subsection \<open>Runs of a test\<close>

lemma run_keeps_target:
  assumes "run steps seen w = Returned seen' w'" and "no_failure_injected steps"
    and "\<not> mu w" and "SetServingTypeError w = None" and "target w = Some p"
  shows "\<not> mu w' \<and> SetServingTypeError w' = None \<and> target w' = Some p"
  using assms
proof (induction steps seen w rule: run.induct)
  case (1 seen w)
  then show ?case by simp
next
  case (2 tabletType terTime serving reason rest seen w)
  from "2.prems"(1) obtain r w1 where
    c: "SetServingType tabletType terTime serving reason w = Returned r w1"
    and r: "run rest seen w1 = Returned seen' w'"
    by (auto split: outcome.splits)
  from SetServingType_Returned_D [OF c] "2.prems"
  have "\<not> mu w1" "SetServingTypeError w1 = None" "target w1 = Some p" by simp_all
  with "2.IH" [OF c r] "2.prems"(2) show ?case by simp
next
  case (3 rest seen w)
  from "3.prems"(1) obtain e ch where
    c: "chan_recv (StateChanges w) = Some (e, ch)"
    and r: "run rest (seen @ [e]) (w\<lparr>StateChanges := ch\<rparr>) = Returned seen' w'"
    by (auto split: option.splits)
  from "3.IH" [OF c refl r] "3.prems" show ?case by simp
next
  case (4 e rest seen w)
  from "4.prems"(2) have e: "e = None" by (cases e) simp_all
  with "4.IH" "4.prems" show ?case by simp
qed

lemma run_events:
  assumes "run steps seen w = Returned seen' w'"
  shows "seen' @ buf (StateChanges w') = seen @ buf (StateChanges w) @ events_of steps"
  using assms
proof (induction steps seen w rule: run.induct)
  case (1 seen w)
  then show ?case by simp
next
  case (2 tabletType terTime serving reason rest seen w)
  from "2.prems" obtain r w1 where
    c: "SetServingType tabletType terTime serving reason w = Returned r w1"
    and r: "run rest seen w1 = Returned seen' w'"
    by (auto split: outcome.splits)
  from "2.IH" [OF c r] SetServingType_Returned_D [OF c] show ?case by simp
next
  case (3 rest seen w)
  from "3.prems" obtain e ch where
    c: "chan_recv (StateChanges w) = Some (e, ch)"
    and r: "run rest (seen @ [e]) (w\<lparr>StateChanges := ch\<rparr>) = Returned seen' w'"
    by (auto split: option.splits)
  from c have "buf (StateChanges w) = e # buf ch"
    by (auto simp: chan_recv_def split: list.splits)
  with "3.IH" [OF c refl r] show ?case by simp
next
  case (4 e rest seen w)
  then show ?case by simp
qed

subsection \<open>Serving-type transitions\<close>

text \<open>
  C1: InitDBConfig has stored a Target and no failure is injected. After any run of
  SetServingType calls (with the receives that keep the channel from filling up), the next
  call returns nil when the channel has room, and then IsServing returns the serving flag
  of that call and CurrentTarget returns a message whose tablet type is the tablet type of
  that call.
\<close>

theorem SetServingType_sets_type_and_serving:
  assumes "\<not> mu w0" and "SetServingTypeError w0 = None"
    and "InitDBConfig (Some a) dbcfgs mysqld w0 = Returned r0 w1"
    and "no_failure_injected steps"
    and "run steps seen w1 = Returned seen' w"
    and "has_room (StateChanges w)"
  shows "\<exists>w'. SetServingType tabletType terTime serving reason w = Returned None w'
           \<and> IsServing w' = Returned serving w'
           \<and> (\<exists>q w''. CurrentTarget w' = Returned (Some q) w''
                  \<and> TabletType (heap w'' q) = tabletType)"
proof -
  from assms(1,3) have w1: "\<not> mu w1" "target w1 = Some (brk w0)"
    "SetServingTypeError w1 = SetServingTypeError w0"
    by (auto simp: InitDBConfig_idle)
  from run_keeps_target [OF assms(5,4) w1(1) _ w1(2)] w1(3) assms(2)
  have w: "\<not> mu w" "SetServingTypeError w = None" "target w = Some (brk w0)" by simp_all
  show ?thesis
    by (simp add: SetServingType_ok [OF w assms(6)] IsServing_idle CurrentTarget_idle w)
qed

theorem SetServingType_sets_type_and_serving_witness:
  "\<not> mu fresh \<and> SetServingTypeError fresh = None
   \<and> no_failure_injected
        [Call_SetServingType (2::nat) () True ''init'', Recv_StateChanges,
         Assign_SetServingTypeError (None :: string option)]
   \<and> (\<exists>w'. SetServingType (1::nat) () False ''demote''
          (state_of (run [Call_SetServingType (2::nat) () True ''init'', Recv_StateChanges,
                          Assign_SetServingTypeError None] []
             (state_of (InitDBConfig (Some 0) () () fresh)))) = Returned None w'
        \<and> IsServing w' = Returned False w'
        \<and> (\<exists>q w''. CurrentTarget w' = Returned (Some q) w'' \<and> TabletType (heap w'' q) = 1))"
proof -
  let ?steps = "[Call_SetServingType (2::nat) () True ''init'', Recv_StateChanges,
                 Assign_SetServingTypeError (None :: string option)]"
  let ?w1 = "state_of (InitDBConfig (Some 0) () () fresh)"
  let ?w = "state_of (run ?steps [] ?w1)"
  have h1: "\<not> mu fresh" and h2: "SetServingTypeError fresh = None"
    by (simp_all add: fresh_simps)
  have h3: "InitDBConfig (Some 0) () () fresh = Returned None ?w1"
    by (simp add: InitDBConfig_idle fresh_simps)
  have h4: "no_failure_injected ?steps" by simp
  have h5: "run ?steps [] ?w1 = Returned [\<lparr>Serving_SC = True, TabletType_SC = 2\<rparr>] ?w"
    by (simp add: InitDBConfig_idle SetServingType_ok [where p = 1] fresh_simps step_defs)
  have h6: "has_room (StateChanges ?w)"
    by (simp add: InitDBConfig_idle SetServingType_ok [where p = 1] fresh_simps step_defs)
  from SetServingType_sets_type_and_serving [OF h1 h2 h3 h4 h5 h6, of 1 "()" False "''demote''"]
    h1 h2 h4
  show ?thesis by simp
qed

text \<open>
  C2: with an injected failure the call returns exactly that error. The Target pointer, the
  store of Target messages and queryServiceEnabled are what they were; the event of the call
  is appended to the state-change channel and isInLameduck is false. Nothing else changes.
\<close>

theorem SetServingType_injected_failure:
  assumes "\<not> mu w" and "SetServingTypeError w = Some e" and "has_room (StateChanges w)"
  shows "\<exists>w'. SetServingType tabletType terTime serving reason w = Returned (Some e) w'
           \<and> target w' = target w \<and> heap w' = heap w
           \<and> queryServiceEnabled w' = queryServiceEnabled w
           \<and> buf (StateChanges w') =
               buf (StateChanges w) @ [\<lparr>Serving_SC = serving, TabletType_SC = tabletType\<rparr>]
           \<and> \<not> isInLameduck w'
           \<and> w' = w\<lparr>StateChanges := (StateChanges w)\<lparr>buf := buf (StateChanges w) @
                        [\<lparr>Serving_SC = serving, TabletType_SC = tabletType\<rparr>]\<rparr>,
                     isInLameduck := False\<rparr>"
  by (simp add: SetServingType_failing [OF assms])

theorem SetServingType_injected_failure_witness:
  "\<not> mu (fresh\<lparr>SetServingTypeError := Some ''ErrX''\<rparr>)
   \<and> SetServingTypeError (fresh\<lparr>SetServingTypeError := Some ''ErrX''\<rparr>) = Some ''ErrX''
   \<and> has_room (StateChanges (fresh\<lparr>SetServingTypeError := Some ''ErrX''\<rparr>))
   \<and> SetServingType (1::nat) () True ''promote'' (fresh\<lparr>SetServingTypeError := Some ''ErrX''\<rparr>) =
       Returned (Some ''ErrX'')
         (fresh\<lparr>SetServingTypeError := Some ''ErrX'',
                StateChanges := \<lparr>cap = 10, buf = [\<lparr>Serving_SC = True, TabletType_SC = 1\<rparr>]\<rparr>\<rparr>)
   \<and> queryServiceEnabled (fresh\<lparr>SetServingTypeError := Some ''ErrX''\<rparr>) = False"
proof -
  let ?w = "fresh\<lparr>SetServingTypeError := Some ''ErrX''\<rparr>"
  have h1: "\<not> mu ?w" and h2: "SetServingTypeError ?w = Some ''ErrX''"
    and h3: "has_room (StateChanges ?w)"
    by (simp_all add: fresh_simps has_room_def)
  from SetServingType_injected_failure [OF h1 h2 h3, of 1 "()" True "''promote''"] h1 h2 h3
  show ?thesis by (simp add: fresh_simps)
qed

subsection \<open>State-change events\<close>

text \<open>
  C3, as amended: a SetServingType call made while a Target is installed or a failure is
  injected returns as soon as the channel has room, and every call that returns has
  appended exactly one event, holding the serving flag and the tablet type of the call, to
  the state-change channel. Over a test that runs to its end, the events received followed
  by the events still in the channel are the events already there followed by the events
  of the calls in call order.
\<close>

theorem SetServingType_enqueues_one_event:
  "(\<not> mu w \<and> (SetServingTypeError w \<noteq> None \<or> target w \<noteq> None) \<and> has_room (StateChanges w)
      \<longrightarrow> (\<exists>r w'. SetServingType tabletType terTime serving reason w = Returned r w'))
   \<and> (\<forall>r w'. SetServingType tabletType terTime serving reason w = Returned r w'
      \<longrightarrow> buf (StateChanges w') =
            buf (StateChanges w) @ [\<lparr>Serving_SC = serving, TabletType_SC = tabletType\<rparr>])
   \<and> (run steps seen w = Returned seen' w''
      \<longrightarrow> seen' @ buf (StateChanges w'') = seen @ buf (StateChanges w) @ events_of steps)"
proof (intro conjI impI allI)
  assume "\<not> mu w \<and> (SetServingTypeError w \<noteq> None \<or> target w \<noteq> None) \<and> has_room (StateChanges w)"
  then show "\<exists>r w'. SetServingType tabletType terTime serving reason w = Returned r w'"
    using SetServingType_returns [of w tabletType terTime serving reason] by blast
next
  fix r w'
  assume "SetServingType tabletType terTime serving reason w = Returned r w'"
  from SetServingType_Returned_D [OF this]
  show "buf (StateChanges w') =
          buf (StateChanges w) @ [\<lparr>Serving_SC = serving, TabletType_SC = tabletType\<rparr>]"
    by simp
next
  assume "run steps seen w = Returned seen' w''"
  then show "seen' @ buf (StateChanges w'') = seen @ buf (StateChanges w) @ events_of steps"
    by (rule run_events)
qed

text \<open>
  The claim as stated fails on a controller that has no Target and no injected failure: the
  call panics at the assignment to the Target, before the send, and the channel is as empty
  after the call as it was before.
\<close>

theorem SetServingType_enqueues_one_event_counterexample:
  "SetServingType (2::nat) () True ''init'' fresh = Panicked fresh
   \<and> buf (StateChanges fresh) = []"
  by (simp add: SetServingType_panics fresh_simps)

theorem SetServingType_enqueues_one_event_witness:
  "\<not> mu (fresh\<lparr>SetServingTypeError := Some ''ErrX''\<rparr>)
   \<and> has_room (StateChanges (fresh\<lparr>SetServingTypeError := Some ''ErrX''\<rparr>))
   \<and> SetServingType (1::nat) () True ''promote'' (fresh\<lparr>SetServingTypeError := Some ''ErrX''\<rparr>) =
       Returned (Some ''ErrX'')
         (state_of (SetServingType (1::nat) () True ''promote''
                      (fresh\<lparr>SetServingTypeError := Some ''ErrX''\<rparr>)))
   \<and> buf (StateChanges (state_of (SetServingType (1::nat) () True ''promote''
                      (fresh\<lparr>SetServingTypeError := Some ''ErrX''\<rparr>)))) =
       [\<lparr>Serving_SC = True, TabletType_SC = 1\<rparr>]
   \<and> run [Assign_SetServingTypeError (Some ''ErrX''),
           Call_SetServingType (1::nat) () True ''promote'',
           Call_SetServingType 2 () False ''drain'',
           Recv_StateChanges] [] fresh =
       Returned [\<lparr>Serving_SC = True, TabletType_SC = 1\<rparr>]
         (fresh\<lparr>SetServingTypeError := Some ''ErrX'',
                StateChanges := \<lparr>cap = 10, buf = [\<lparr>Serving_SC = False, TabletType_SC = 2\<rparr>]\<rparr>\<rparr>)
   \<and> [\<lparr>Serving_SC = True, TabletType_SC = 1\<rparr>] @ [\<lparr>Serving_SC = False, TabletType_SC = 2\<rparr>] =
       events_of [Assign_SetServingTypeError (Some ''ErrX''),
           Call_SetServingType (1::nat) () True ''promote'',
           Call_SetServingType 2 () False ''drain'',
           Recv_StateChanges]"
proof -
  let ?w = "fresh\<lparr>SetServingTypeError := Some ''ErrX''\<rparr>"
  let ?steps = "[Assign_SetServingTypeError (Some ''ErrX''),
           Call_SetServingType (1::nat) () True ''promote'',
           Call_SetServingType 2 () False ''drain'',
           Recv_StateChanges]"
  let ?end = "fresh\<lparr>SetServingTypeError := Some ''ErrX'',
                StateChanges := \<lparr>cap = 10, buf = [\<lparr>Serving_SC = False, TabletType_SC = 2\<rparr>]\<rparr>\<rparr>"
  have h: "\<not> mu ?w" "SetServingTypeError ?w \<noteq> None \<or> target ?w \<noteq> None"
    "has_room (StateChanges ?w)"
    by (simp_all add: fresh_simps has_room_def)
  have c: "SetServingType (1::nat) () True ''promote'' ?w =
       Returned (Some ''ErrX'') (state_of (SetServingType (1::nat) () True ''promote'' ?w))"
    by (simp add: SetServingType_failing fresh_simps has_room_def)
  have r: "run ?steps [] fresh = Returned [\<lparr>Serving_SC = True, TabletType_SC = 1\<rparr>] ?end"
    by (simp add: SetServingType_failing fresh_simps step_defs)
  from SetServingType_enqueues_one_event
         [of ?w 1 "()" True "''promote''" ?steps "[]" "[\<lparr>Serving_SC = True, TabletType_SC = 1\<rparr>]" ?end]
  have "buf (StateChanges (state_of (SetServingType (1::nat) () True ''promote'' ?w))) =
          buf (StateChanges ?w) @ [\<lparr>Serving_SC = True, TabletType_SC = 1\<rparr>]"
    using c by blast
  with h c r show ?thesis by (simp add: fresh_simps)
qed

subsection \<open>Lameduck\<close>

text \<open>
  C4, as amended: a SetServingType call made while a Target is installed or a failure is
  injected returns as soon as the channel has room, and after every call that returns,
  with or without an injected failure and whatever the serving flag, isInLameduck is false.
\<close>

theorem SetServingType_clears_lameduck:
  "(\<not> mu w \<and> (SetServingTypeError w \<noteq> None \<or> target w \<noteq> None) \<and> has_room (StateChanges w)
      \<longrightarrow> (\<exists>r w'. SetServingType tabletType terTime serving reason w = Returned r w'))
   \<and> (\<forall>r w'. SetServingType tabletType terTime serving reason w = Returned r w'
      \<longrightarrow> \<not> isInLameduck w')"
proof (intro conjI impI allI)
  assume "\<not> mu w \<and> (SetServingTypeError w \<noteq> None \<or> target w \<noteq> None) \<and> has_room (StateChanges w)"
  then show "\<exists>r w'. SetServingType tabletType terTime serving reason w = Returned r w'"
    using SetServingType_returns [of w tabletType terTime serving reason] by blast
next
  fix r w'
  assume "SetServingType tabletType terTime serving reason w = Returned r w'"
  from SetServingType_Returned_D [OF this] show "\<not> isInLameduck w'" by simp
qed

text \<open>
  The claim as stated fails on a controller that has no Target and no injected failure:
  after EnterLameduck the call panics before it reaches the assignment to isInLameduck,
  and the flag is still true.
\<close>

theorem SetServingType_clears_lameduck_counterexample:
  "EnterLameduck fresh = Returned () (fresh\<lparr>isInLameduck := True\<rparr>)
   \<and> SetServingType (2::nat) () False ''drain'' (fresh\<lparr>isInLameduck := True\<rparr>) =
       Panicked (fresh\<lparr>isInLameduck := True\<rparr>)
   \<and> isInLameduck (fresh\<lparr>isInLameduck := True\<rparr>)"
  by (simp add: EnterLameduck_idle SetServingType_panics fresh_simps)

theorem SetServingType_clears_lameduck_witness:
  "isInLameduck (fresh\<lparr>isInLameduck := True, SetServingTypeError := Some ''ErrX''\<rparr>)
   \<and> \<not> mu (fresh\<lparr>isInLameduck := True, SetServingTypeError := Some ''ErrX''\<rparr>)
   \<and> has_room (StateChanges (fresh\<lparr>isInLameduck := True, SetServingTypeError := Some ''ErrX''\<rparr>))
   \<and> SetServingType (1::nat) () False ''drain''
        (fresh\<lparr>isInLameduck := True, SetServingTypeError := Some ''ErrX''\<rparr>) =
       Returned (Some ''ErrX'')
         (state_of (SetServingType (1::nat) () False ''drain''
            (fresh\<lparr>isInLameduck := True, SetServingTypeError := Some ''ErrX''\<rparr>)))
   \<and> \<not> isInLameduck (state_of (SetServingType (1::nat) () False ''drain''
            (fresh\<lparr>isInLameduck := True, SetServingTypeError := Some ''ErrX''\<rparr>)))"
proof -
  let ?w = "fresh\<lparr>isInLameduck := True, SetServingTypeError := Some ''ErrX''\<rparr>"
  have h: "isInLameduck ?w" "\<not> mu ?w" "has_room (StateChanges ?w)"
    by (simp_all add: fresh_simps has_room_def)
  have c: "SetServingType (1::nat) () False ''drain'' ?w =
       Returned (Some ''ErrX'') (state_of (SetServingType (1::nat) () False ''drain'' ?w))"
    by (simp add: SetServingType_failing fresh_simps has_room_def)
  from SetServingType_clears_lameduck [of ?w 1 "()" False "''drain''"] c
  have "\<not> isInLameduck (state_of (SetServingType (1::nat) () False ''drain'' ?w))"
    by blast
  with h c show ?thesis by simp
qed

subsection \<open>Health broadcasts\<close>

text \<open>
  C5: a BroadcastHealth call that finds room in the broadcast channel appends exactly one
  event and changes nothing else; the Serving field of the event is queryServiceEnabled and
  not isInLameduck, as they are at the call, and the other two fields are zero. After
  EnterLameduck the event says false whatever IsServing returns, and on a freshly
  constructed controller it says false.
\<close>

theorem BroadcastHealth_event:
  assumes "\<not> mu w" and "has_room (BroadcastData w)"
  shows "BroadcastHealth w =
           Returned ()
             (w\<lparr>BroadcastData := (BroadcastData w)\<lparr>buf := buf (BroadcastData w) @
                  [\<lparr>TERTimestamp = 0, RealtimeStats = 0,
                    Serving = (queryServiceEnabled w \<and> \<not> isInLameduck w)\<rparr>]\<rparr>\<rparr>)
         \<and> (\<exists>w1 w2. EnterLameduck w = Returned () w1
               \<and> IsServing w1 = Returned (queryServiceEnabled w) w1
               \<and> BroadcastHealth w1 = Returned () w2
               \<and> buf (BroadcastData w2) =
                   buf (BroadcastData w) @
                     [\<lparr>TERTimestamp = 0, RealtimeStats = 0, Serving = False\<rparr>])
         \<and> BroadcastHealth (in_store h b (NewController st)) =
             Returned ()
               ((in_store h b (NewController st))
                  \<lparr>BroadcastData :=
                     \<lparr>cap = 10, buf = [\<lparr>TERTimestamp = 0, RealtimeStats = 0, Serving = False\<rparr>]\<rparr>\<rparr>)"
proof (intro conjI)
  show "BroadcastHealth w =
           Returned ()
             (w\<lparr>BroadcastData := (BroadcastData w)\<lparr>buf := buf (BroadcastData w) @
                  [\<lparr>TERTimestamp = 0, RealtimeStats = 0,
                    Serving = (queryServiceEnabled w \<and> \<not> isInLameduck w)\<rparr>]\<rparr>\<rparr>)"
    using assms by (rule BroadcastHealth_idle)
next
  let ?w1 = "w\<lparr>isInLameduck := True\<rparr>"
  have idle: "\<not> mu ?w1" and room: "has_room (BroadcastData ?w1)"
    using assms by simp_all
  show "\<exists>w1 w2. EnterLameduck w = Returned () w1
               \<and> IsServing w1 = Returned (queryServiceEnabled w) w1
               \<and> BroadcastHealth w1 = Returned () w2
               \<and> buf (BroadcastData w2) =
                   buf (BroadcastData w) @
                     [\<lparr>TERTimestamp = 0, RealtimeStats = 0, Serving = False\<rparr>]"
    using assms(1)
    by (simp add: EnterLameduck_idle IsServing_idle BroadcastHealth_idle [OF idle room])
next
  show "BroadcastHealth (in_store h b (NewController st)) =
          Returned ()
            ((in_store h b (NewController st))
               \<lparr>BroadcastData :=
                  \<lparr>cap = 10, buf = [\<lparr>TERTimestamp = 0, RealtimeStats = 0, Serving = False\<rparr>]\<rparr>\<rparr>)"
    by (simp add: BroadcastHealth_idle in_store_simps NewController_simps has_room_def)
qed

theorem BroadcastHealth_event_witness:
  "\<not> mu (fresh\<lparr>queryServiceEnabled := True\<rparr>)
   \<and> has_room (BroadcastData (fresh\<lparr>queryServiceEnabled := True\<rparr>))
   \<and> BroadcastHealth (fresh\<lparr>queryServiceEnabled := True\<rparr>) =
       Returned ()
         (fresh\<lparr>queryServiceEnabled := True,
                BroadcastData :=
                  \<lparr>cap = 10, buf = [\<lparr>TERTimestamp = 0, RealtimeStats = 0, Serving = True\<rparr>]\<rparr>\<rparr>)"
proof -
  let ?w = "fresh\<lparr>queryServiceEnabled := True\<rparr>"
  have h1: "\<not> mu ?w" and h2: "has_room (BroadcastData ?w)"
    by (simp_all add: fresh_simps has_room_def)
  from BroadcastHealth_event [OF h1 h2, THEN conjunct1] h1 h2
  show ?thesis by (simp add: fresh_simps)
qed

subsection \<open>Query rules\<close>

text \<open>
  C6: GetQueryRules after SetQueryRules on the same source returns the rule set that was
  stored, the later of two stores on one source wins, a store on another source does not
  change what GetQueryRules returns, and GetQueryRules returns nil for a source the map has
  no entry for, as on a freshly constructed controller.
\<close>

theorem SetQueryRules_GetQueryRules:
  assumes "\<not> mu w"
  shows "(\<exists>w1. SetQueryRules ruleSource qrs w = Returned None w1
             \<and> GetQueryRules ruleSource w1 = Returned qrs w1)
         \<and> (\<exists>w1 w2. SetQueryRules ruleSource qrs0 w = Returned None w1
             \<and> SetQueryRules ruleSource qrs w1 = Returned None w2
             \<and> GetQueryRules ruleSource w2 = Returned qrs w2)
         \<and> (other \<noteq> ruleSource \<longrightarrow>
              (\<exists>r w1. GetQueryRules ruleSource w = Returned r w
                 \<and> SetQueryRules other qrs w = Returned None w1
                 \<and> GetQueryRules ruleSource w1 = Returned r w1))
         \<and> (queryRulesMap w ruleSource = None \<longrightarrow> GetQueryRules ruleSource w = Returned None w)
         \<and> GetQueryRules ruleSource (in_store h b (NewController st)) =
             Returned None (in_store h b (NewController st))"
  using assms
  by (simp add: SetQueryRules_idle GetQueryRules_idle in_store_simps NewController_simps)

theorem SetQueryRules_GetQueryRules_witness:
  "\<not> mu fresh
   \<and> SetQueryRules ''denylist'' (Some 7) fresh =
       Returned None (fresh\<lparr>queryRulesMap := [''denylist'' \<mapsto> Some 7]\<rparr>)
   \<and> GetQueryRules ''denylist'' (fresh\<lparr>queryRulesMap := [''denylist'' \<mapsto> Some 7]\<rparr>) =
       Returned (Some 7) (fresh\<lparr>queryRulesMap := [''denylist'' \<mapsto> Some 7]\<rparr>)
   \<and> ''custom'' \<noteq> ''denylist''
   \<and> GetQueryRules ''custom'' (fresh\<lparr>queryRulesMap := [''denylist'' \<mapsto> Some 7]\<rparr>) =
       Returned None (fresh\<lparr>queryRulesMap := [''denylist'' \<mapsto> Some 7]\<rparr>)
   \<and> queryRulesMap fresh ''denylist'' = None
   \<and> GetQueryRules ''denylist'' fresh = Returned None fresh"
proof -
  have h: "\<not> mu fresh" by (simp add: fresh_simps)
  have s: "SetQueryRules ''denylist'' (Some 7) fresh =
             Returned None (fresh\<lparr>queryRulesMap := [''denylist'' \<mapsto> Some 7]\<rparr>)"
    by (simp add: SetQueryRules_idle fresh_simps)
  have n: "queryRulesMap fresh ''denylist'' = None" and ne: "''custom'' \<noteq> ''denylist''"
    by (simp_all add: fresh_simps)
  from SetQueryRules_GetQueryRules [OF h, of "''denylist''" "Some 7", THEN conjunct1] s
  have a: "GetQueryRules ''denylist'' (fresh\<lparr>queryRulesMap := [''denylist'' \<mapsto> Some 7]\<rparr>) =
       Returned (Some 7) (fresh\<lparr>queryRulesMap := [''denylist'' \<mapsto> Some 7]\<rparr>)"
    by auto
  have b: "GetQueryRules ''custom'' (fresh\<lparr>queryRulesMap := [''denylist'' \<mapsto> Some 7]\<rparr>) =
       Returned None (fresh\<lparr>queryRulesMap := [''denylist'' \<mapsto> Some 7]\<rparr>)"
    by (simp add: GetQueryRules_idle fresh_simps)
  have d: "GetQueryRules ''denylist'' fresh = Returned None fresh"
    by (simp add: GetQueryRules_idle fresh_simps)
  from h s a b d n ne show ?thesis by simp
qed

subsection \<open>Copies of the Target\<close>


text \<open>
  The pointers the controller holds refer to allocated messages: this holds of a new
  controller, whose Target is nil, and every method that returns keeps it.
\<close>

lemma InitDBConfig_allocated:
  assumes "InitDBConfig tgt dbcfgs mysqld w = Returned r w'" and "target w' = Some p"
  shows "p < brk w'"
  using assms
  by (cases tgt) (auto simp: InitDBConfig_def step_defs split: if_splits)

lemma CurrentTarget_allocated:
  assumes "CurrentTarget w = Returned r w'" and "target w = Some p" and "p < brk w"
  shows "target w' = Some p \<and> p < brk w' \<and> (\<exists>q. r = Some q \<and> q < brk w')"
  using assms
  by (auto simp: CurrentTarget_def step_defs split: if_splits)

lemma SetServingType_allocated:
  assumes "SetServingType tabletType terTime serving reason w = Returned r w'"
    and "target w = Some p" and "p < brk w"
  shows "target w' = Some p \<and> p < brk w'"
  using SetServingType_Returned_D [OF assms(1)] assms(2,3) by simp


subsection \<open>Operations that never fail\<close>

text \<open>
  C8: InitDBConfig and SetQueryRules return nil whenever they return, and they return
  whenever the mutex is free; they never panic. IsHealthy and ReloadSchema return nil in
  every state and leave it as it is. RegisterQueryRuleSource and UnRegisterQueryRuleSource
  return in every state and leave the whole state, the rule map included, as it is.
\<close>

theorem other_operations_never_fail:
  "(\<not> mu w \<longrightarrow> (\<exists>w'. InitDBConfig tgt dbcfgs mysqld w = Returned None w'))
   \<and> (\<forall>r w'. InitDBConfig tgt dbcfgs mysqld w = Returned r w' \<longrightarrow> r = None)
   \<and> (\<forall>w'. InitDBConfig tgt dbcfgs mysqld w \<noteq> Panicked w')
   \<and> IsHealthy w = Returned None w
   \<and> ReloadSchema ctx w = Returned None w
   \<and> (\<not> mu w \<longrightarrow> (\<exists>w'. SetQueryRules ruleSource qrs w = Returned None w'))
   \<and> (\<forall>r w'. SetQueryRules ruleSource qrs w = Returned r w' \<longrightarrow> r = None)
   \<and> (\<forall>w'. SetQueryRules ruleSource qrs w \<noteq> Panicked w')
   \<and> RegisterQueryRuleSource ruleSource w = Returned () w
   \<and> UnRegisterQueryRuleSource ruleSource w = Returned () w"
proof -
  have "InitDBConfig tgt dbcfgs mysqld w = Blocked w" if "mu w"
    using that by (simp add: locked_waits)
  moreover have "\<exists>w'. InitDBConfig tgt dbcfgs mysqld w = Returned None w'" if "\<not> mu w"
    using that by (cases tgt) (simp_all add: InitDBConfig_nil InitDBConfig_idle)
  moreover have "SetQueryRules ruleSource qrs w = Blocked w" if "mu w"
    using that by (simp add: locked_waits)
  moreover have "\<exists>w'. SetQueryRules ruleSource qrs w = Returned None w'" if "\<not> mu w"
    using that by (simp add: SetQueryRules_idle)
  ultimately show ?thesis
    by (cases "mu w")
      (auto simp: IsHealthy_def ReloadSchema_def RegisterQueryRuleSource_def
        UnRegisterQueryRuleSource_def)
qed

theorem other_operations_never_fail_witness:
  "\<not> mu fresh
   \<and> InitDBConfig (Some 0) () () fresh = Returned None (state_of (InitDBConfig (Some 0) () () fresh))
   \<and> SetQueryRules ''denylist'' (Some 7) fresh =
       Returned None (state_of (SetQueryRules ''denylist'' (Some 7) fresh))
   \<and> IsHealthy fresh = Returned None fresh
   \<and> ReloadSchema () fresh = Returned None fresh
   \<and> RegisterQueryRuleSource ''denylist'' fresh = Returned () fresh
   \<and> UnRegisterQueryRuleSource ''denylist'' fresh = Returned () fresh"
proof -
  have h: "\<not> mu fresh" by (simp add: fresh_simps)
  from other_operations_never_fail [of fresh "Some 0" "()" "()" "()" "''denylist''" "Some 7"] h
  show ?thesis by auto
qed

subsection \<open>The mutex and the channels\<close>

text \<open>
  C9, as amended: SetServingType and BroadcastHealth hold the mutex across the send to their
  channel. When the channel is full the call is suspended at the send with the mutex
  locked, and in the state it is suspended in every method that takes the mutex
  (InitDBConfig, SetServingType, IsServing, CurrentTarget, SetQueryRules, GetQueryRules,
  BroadcastHealth, EnterLameduck, SetQueryServiceEnabledForTests) waits, as it does in
  every state in which the mutex is locked. The mutex is released when the call returns or
  panics.
\<close>

theorem lock_held_across_send:
  "(\<not> mu w \<and> (SetServingTypeError w \<noteq> None \<or> target w \<noteq> None) \<and> \<not> has_room (StateChanges w)
      \<longrightarrow> (\<exists>w'. SetServingType tabletType terTime serving reason w = Blocked w' \<and> mu w'
             \<and> InitDBConfig tgt dbcfgs mysqld w' = Blocked w'
             \<and> SetServingType tabletType' terTime' serving' reason' w' = Blocked w'
             \<and> IsServing w' = Blocked w'
             \<and> CurrentTarget w' = Blocked w'
             \<and> SetQueryRules ruleSource qrs w' = Blocked w'
             \<and> GetQueryRules ruleSource w' = Blocked w'
             \<and> BroadcastHealth w' = Blocked w'
             \<and> EnterLameduck w' = Blocked w'
             \<and> SetQueryServiceEnabledForTests enabled w' = Blocked w'))
   \<and> (\<not> mu w \<and> \<not> has_room (BroadcastData w)
      \<longrightarrow> (\<exists>w'. BroadcastHealth w = Blocked w' \<and> mu w'
             \<and> InitDBConfig tgt dbcfgs mysqld w' = Blocked w'
             \<and> SetServingType tabletType' terTime' serving' reason' w' = Blocked w'
             \<and> IsServing w' = Blocked w'
             \<and> CurrentTarget w' = Blocked w'
             \<and> SetQueryRules ruleSource qrs w' = Blocked w'
             \<and> GetQueryRules ruleSource w' = Blocked w'
             \<and> BroadcastHealth w' = Blocked w'
             \<and> EnterLameduck w' = Blocked w'
             \<and> SetQueryServiceEnabledForTests enabled w' = Blocked w'))
   \<and> (mu w
      \<longrightarrow> InitDBConfig tgt dbcfgs mysqld w = Blocked w
        \<and> SetServingType tabletType terTime serving reason w = Blocked w
        \<and> IsServing w = Blocked w
        \<and> CurrentTarget w = Blocked w
        \<and> SetQueryRules ruleSource qrs w = Blocked w
        \<and> GetQueryRules ruleSource w = Blocked w
        \<and> BroadcastHealth w = Blocked w
        \<and> EnterLameduck w = Blocked w
        \<and> SetQueryServiceEnabledForTests enabled w = Blocked w)
   \<and> (\<forall>r w'. SetServingType tabletType terTime serving reason w = Returned r w' \<longrightarrow> \<not> mu w')
   \<and> (\<forall>w'. SetServingType tabletType terTime serving reason w = Panicked w' \<longrightarrow> \<not> mu w')
   \<and> (\<forall>r w'. BroadcastHealth w = Returned r w' \<longrightarrow> \<not> mu w')
   \<and> (\<forall>w'. BroadcastHealth w \<noteq> Panicked w')"
proof (intro conjI impI allI)
  assume "\<not> mu w \<and> (SetServingTypeError w \<noteq> None \<or> target w \<noteq> None) \<and> \<not> has_room (StateChanges w)"
  then obtain w' where "SetServingType tabletType terTime serving reason w = Blocked w'" and "mu w'"
    using SetServingType_full [of w tabletType terTime serving reason] by blast
  then show "\<exists>w'. SetServingType tabletType terTime serving reason w = Blocked w' \<and> mu w'
             \<and> InitDBConfig tgt dbcfgs mysqld w' = Blocked w'
             \<and> SetServingType tabletType' terTime' serving' reason' w' = Blocked w'
             \<and> IsServing w' = Blocked w'
             \<and> CurrentTarget w' = Blocked w'
             \<and> SetQueryRules ruleSource qrs w' = Blocked w'
             \<and> GetQueryRules ruleSource w' = Blocked w'
             \<and> BroadcastHealth w' = Blocked w'
             \<and> EnterLameduck w' = Blocked w'
             \<and> SetQueryServiceEnabledForTests enabled w' = Blocked w'"
    by (simp add: locked_waits BroadcastHealth_locked)
next
  assume "\<not> mu w \<and> \<not> has_room (BroadcastData w)"
  then have "BroadcastHealth w = Blocked (w\<lparr>mu := True\<rparr>)" and "mu (w\<lparr>mu := True\<rparr>)"
    by (simp_all add: BroadcastHealth_full)
  then show "\<exists>w'. BroadcastHealth w = Blocked w' \<and> mu w'
             \<and> InitDBConfig tgt dbcfgs mysqld w' = Blocked w'
             \<and> SetServingType tabletType' terTime' serving' reason' w' = Blocked w'
             \<and> IsServing w' = Blocked w'
             \<and> CurrentTarget w' = Blocked w'
             \<and> SetQueryRules ruleSource qrs w' = Blocked w'
             \<and> GetQueryRules ruleSource w' = Blocked w'
             \<and> BroadcastHealth w' = Blocked w'
             \<and> EnterLameduck w' = Blocked w'
             \<and> SetQueryServiceEnabledForTests enabled w' = Blocked w'"
    by (simp add: locked_waits BroadcastHealth_locked)
next
  fix r w'
  assume "SetServingType tabletType terTime serving reason w = Returned r w'"
  from SetServingType_Returned_D [OF this] show "\<not> mu w'" by simp
next
  fix w'
  assume "SetServingType tabletType terTime serving reason w = Panicked w'"
  then show "\<not> mu w'"
    by (auto simp: SetServingType_def step_defs split: if_splits option.splits)
next
  fix r w'
  assume "BroadcastHealth w = Returned r w'"
  from BroadcastHealth_Returned_D [OF this] show "\<not> mu w'" by simp
next
  fix w'
  show "BroadcastHealth w \<noteq> Panicked w'"
    by (auto simp: BroadcastHealth_def step_defs split: if_splits option.splits)
qed (simp_all add: locked_waits BroadcastHealth_locked)

text \<open>
  The claim as stated fails: with an injected failure and nobody receiving, the eleventh
  SetServingType call in a row finds the channel of capacity 10 full and is suspended at
  the send while it holds the mutex.
\<close>

theorem lock_held_across_send_counterexample:
  "suspended_with_lock
     (run (Assign_SetServingTypeError (Some ''ErrX'')
             # replicate 11 (Call_SetServingType (1::nat) () True ''promote'')) [] fresh)"
  by (simp add: numeral_eq_Suc SetServingType_def step_defs fresh_simps)

text \<open>
  The two full channels of the example are reached from a freshly constructed controller:
  by ten SetServingType calls with an injected failure, and by ten BroadcastHealth calls.
\<close>

theorem lock_held_across_send_witness:
  "\<not> mu (state_of (run (Assign_SetServingTypeError (Some ''ErrX'')
             # replicate 10 (Call_SetServingType (1::nat) () True ''promote'')) [] fresh))
   \<and> SetServingTypeError (state_of (run (Assign_SetServingTypeError (Some ''ErrX'')
             # replicate 10 (Call_SetServingType (1::nat) () True ''promote'')) [] fresh)) \<noteq> None
   \<and> \<not> has_room (StateChanges (state_of (run (Assign_SetServingTypeError (Some ''ErrX'')
             # replicate 10 (Call_SetServingType (1::nat) () True ''promote'')) [] fresh)))
   \<and> suspended_with_lock (SetServingType (2::nat) () False ''drain''
        (state_of (run (Assign_SetServingTypeError (Some ''ErrX'')
             # replicate 10 (Call_SetServingType (1::nat) () True ''promote'')) [] fresh)))
   \<and> SetQueryServiceEnabledForTests True
        (state_of (SetServingType (2::nat) () False ''drain''
          (state_of (run (Assign_SetServingTypeError (Some ''ErrX'')
             # replicate 10 (Call_SetServingType (1::nat) () True ''promote'')) [] fresh)))) =
       Blocked
        (state_of (SetServingType (2::nat) () False ''drain''
          (state_of (run (Assign_SetServingTypeError (Some ''ErrX'')
             # replicate 10 (Call_SetServingType (1::nat) () True ''promote'')) [] fresh))))
   \<and> \<not> mu (state_of (BroadcastHealth_times 10 fresh))
   \<and> \<not> has_room (BroadcastData (state_of (BroadcastHealth_times 10 fresh)))
   \<and> suspended_with_lock (BroadcastHealth (state_of (BroadcastHealth_times 10 fresh)))
   \<and> GetQueryRules ''denylist''
        (state_of (BroadcastHealth (state_of (BroadcastHealth_times 10 fresh)))) =
       Blocked (state_of (BroadcastHealth (state_of (BroadcastHealth_times 10 fresh))))
   \<and> BroadcastHealth fresh = Returned () (state_of (BroadcastHealth fresh))
   \<and> \<not> mu (state_of (BroadcastHealth fresh))"
proof -
  let ?sc = "state_of (run (Assign_SetServingTypeError (Some ''ErrX'')
             # replicate 10 (Call_SetServingType (1::nat) () True ''promote'')) [] fresh)"
  let ?bd = "state_of (BroadcastHealth_times 10 fresh)"
  have sc: "\<not> mu ?sc \<and> (SetServingTypeError ?sc \<noteq> None \<or> target ?sc \<noteq> None)
              \<and> \<not> has_room (StateChanges ?sc)"
    by (simp add: numeral_eq_Suc SetServingType_def step_defs fresh_simps)
  have bd: "\<not> mu ?bd \<and> \<not> has_room (BroadcastData ?bd)"
    by (simp add: numeral_eq_Suc BroadcastHealth_def step_defs fresh_simps)
  have e: "SetServingTypeError ?sc \<noteq> None"
    by (simp add: numeral_eq_Suc SetServingType_def step_defs fresh_simps)
  have r: "BroadcastHealth fresh = Returned () (state_of (BroadcastHealth fresh))"
    by (simp add: BroadcastHealth_def step_defs fresh_simps)
  from lock_held_across_send
         [of ?sc 2 "()" False "''drain''" None "()" "()" 1 "()" True "''promote''"
             "''denylist''" None True] sc
  obtain w1 where w1: "SetServingType (2::nat) () False ''drain'' ?sc = Blocked w1" "mu w1"
    "SetQueryServiceEnabledForTests True w1 = Blocked w1"
    by blast
  from lock_held_across_send
         [of ?bd 2 "()" False "''drain''" None "()" "()" 1 "()" True "''promote''"
             "''denylist''" None True] bd
  obtain w2 where w2: "BroadcastHealth ?bd = Blocked w2" "mu w2"
    "GetQueryRules ''denylist'' w2 = Blocked w2"
    by blast
  from lock_held_across_send
         [of fresh 2 "()" False "''drain''" None "()" "()" 1 "()" True "''promote''"
             "''denylist''" None True] r
  have m: "\<not> mu (state_of (BroadcastHealth fresh))"
    by blast
  from sc bd e r w1 w2 m show ?thesis by simp
qed

subsection \<open>The nil Target\<close>

text \<open>
  C10: on a controller whose Target is nil and which has no injected failure, as a freshly
  constructed one, SetServingType panics at the assignment to the Target and leaves the
  state as it was. With an injected failure or with a Target installed it never panics, and
  InitDBConfig with a non-nil argument installs a Target.
\<close>

theorem SetServingType_needs_target:
  "(\<not> mu w \<and> SetServingTypeError w = None \<and> target w = None
      \<longrightarrow> SetServingType tabletType terTime serving reason w = Panicked w)
   \<and> SetServingType tabletType terTime serving reason (in_store h b (NewController st)) =
       Panicked (in_store h b (NewController st))
   \<and> (SetServingTypeError w \<noteq> None \<or> target w \<noteq> None
      \<longrightarrow> (\<forall>w'. SetServingType tabletType terTime serving reason w \<noteq> Panicked w'))
   \<and> (\<not> mu w
      \<longrightarrow> (\<exists>w1. InitDBConfig (Some a) dbcfgs mysqld w = Returned None w1
             \<and> target w1 \<noteq> None
             \<and> (\<forall>w'. SetServingType tabletType terTime serving reason w1 \<noteq> Panicked w')))"
proof (intro conjI impI allI)
  assume "\<not> mu w \<and> SetServingTypeError w = None \<and> target w = None"
  then show "SetServingType tabletType terTime serving reason w = Panicked w"
    by (simp add: SetServingType_panics)
next
  show "SetServingType tabletType terTime serving reason (in_store h b (NewController st)) =
       Panicked (in_store h b (NewController st))"
    by (simp add: SetServingType_panics in_store_simps NewController_simps)
next
  fix w'
  assume "SetServingTypeError w \<noteq> None \<or> target w \<noteq> None"
  then show "SetServingType tabletType terTime serving reason w \<noteq> Panicked w'"
    using SetServingType_Panicked_D [of tabletType terTime serving reason w w'] by auto
next
  assume h: "\<not> mu w"
  let ?w1 = "w\<lparr>heap := (heap w)(brk w := heap w a), brk := Suc (brk w), target := Some (brk w)\<rparr>"
  have "SetServingType tabletType terTime serving reason ?w1 \<noteq> Panicked w'" for w'
    using SetServingType_Panicked_D [of tabletType terTime serving reason ?w1 w'] by auto
  with h show "\<exists>w1. InitDBConfig (Some a) dbcfgs mysqld w = Returned None w1
             \<and> target w1 \<noteq> None
             \<and> (\<forall>w'. SetServingType tabletType terTime serving reason w1 \<noteq> Panicked w')"
    by (simp add: InitDBConfig_idle)
qed

theorem SetServingType_needs_target_witness:
  "\<not> mu fresh \<and> SetServingTypeError fresh = None \<and> target fresh = None
   \<and> SetServingType (2::nat) () True ''init'' fresh = Panicked fresh
   \<and> SetServingTypeError (fresh\<lparr>SetServingTypeError := Some ''ErrX''\<rparr>) \<noteq> None
   \<and> SetServingType (2::nat) () True ''init'' (fresh\<lparr>SetServingTypeError := Some ''ErrX''\<rparr>) \<noteq>
       Panicked (fresh\<lparr>SetServingTypeError := Some ''ErrX''\<rparr>)
   \<and> (\<exists>w1. InitDBConfig (Some 0) () () fresh = Returned None w1
         \<and> SetServingType (2::nat) () True ''init'' w1 \<noteq> Panicked w1)"
proof -
  let ?e = "fresh\<lparr>SetServingTypeError := Some ''ErrX''\<rparr>"
  have h: "\<not> mu fresh \<and> SetServingTypeError fresh = None \<and> target fresh = None"
    by (simp add: fresh_simps)
  have g: "SetServingTypeError ?e \<noteq> None" by simp
  from SetServingType_needs_target
         [of fresh 2 "()" True "''init''" test_store 1 0 0 "()" "()", THEN conjunct1] h
  have 1: "SetServingType (2::nat) () True ''init'' fresh = Panicked fresh"
    by simp
  from SetServingType_needs_target
         [of fresh 2 "()" True "''init''" test_store 1 0 0 "()" "()"] h
  have 3: "\<exists>w1. InitDBConfig (Some 0) () () fresh = Returned None w1
         \<and> SetServingType (2::nat) () True ''init'' w1 \<noteq> Panicked w1"
    by auto
  from SetServingType_needs_target
         [of ?e 2 "()" True "''init''" test_store 1 0 0 "()" "()"] g
  have 2: "SetServingType (2::nat) () True ''init'' ?e \<noteq> Panicked ?e"
    by auto
  from h g 1 2 3 show ?thesis by blast
qed

end
